theory Spec2Isabelle
  imports Main
begin

section \<open>The document store\<close>

text \<open>
  The backend keeps three collections that matter here: rooms, bookings and payments.
  A collection is a list of documents in the order a query returns them; every document
  carries its id. Instants are JavaScript \<open>Date.getTime()\<close> values: whole milliseconds
  since the epoch. A server timestamp is the \<open>now\<close> the handler is run with.
\<close>

type_synonym millis = int

record booking =
  bid :: string
  roomId :: string
  userId :: string
  guestName :: string
  guestPhone :: "string option"
  guestEmail :: string
  guests :: int
  checkIn :: millis
  checkOut :: millis
  totalPrice :: int
  status :: string
  paymentStatus :: string
  paymentMethod :: string
  paymentPhone :: "string option"
  receivedBy :: "string option"
  createdAt :: millis
  createdBy :: string
  updatedAt :: "millis option"

record payment =
  pid :: string
  bookingId :: string
  pay_userId :: string
  amount :: int
  currency :: string
  provider :: string
  phone :: "string option"
  pay_status :: string
  customer_reference :: string
  externalReference :: "string option"
  pay_createdAt :: millis
  pay_updatedAt :: "millis option"
  paidAt :: "millis option"
  failureReason :: "string option"

text \<open>
  Of a room only the fields the handlers below read or write are kept (amenities and
  description are carried along by the source and never inspected). Rooms written by the
  room routes have a \<open>price\<close>; the availability route reads \<open>isActive\<close>,
  \<open>capacity\<close> and \<open>pricePerNight\<close>, which may be absent.
\<close>

record room =
  rid :: string
  roomNumber :: string
  rtype :: string
  price :: int
  rstatus :: string
  isActive :: bool
  capacity :: "int option"
  pricePerNight :: "int option"
  room_updatedAt :: "millis option"
  room_updatedBy :: "string option"

record db =
  rooms :: "room list"
  bookings :: "booking list"
  payments :: "payment list"

text \<open>JavaScript truthiness of a value that is a string, \<open>null\<close> or \<open>undefined\<close>.\<close>

definition truthy :: "string option \<Rightarrow> bool" where
  "truthy v = (case v of None \<Rightarrow> False | Some s \<Rightarrow> s \<noteq> [])"

section \<open>The overlap checker (routes/bookings.js)\<close>

text \<open>
  The query of \<open>checkAvailability\<close>:
  \<open>where('roomId', '==', roomId).where('status', 'in', ['confirmed', 'pending'])\<close>.
\<close>

definition room_active_bookings :: "booking list \<Rightarrow> string \<Rightarrow> booking list" where
  "room_active_bookings bs r =
     filter (\<lambda>b. roomId b = r \<and> status b \<in> set [''confirmed'', ''pending'']) bs"

text \<open>The \<open>for\<close> loop over the snapshot, with its \<open>continue\<close> and its early \<open>return false\<close>.\<close>

fun overlap_loop :: "booking list \<Rightarrow> millis \<Rightarrow> millis \<Rightarrow> string option \<Rightarrow> bool" where
  "overlap_loop [] newStart newEnd excludeBookingId = True"
| "overlap_loop (doc # docs) newStart newEnd excludeBookingId =
     (if truthy excludeBookingId \<and> Some (bid doc) = excludeBookingId
      then overlap_loop docs newStart newEnd excludeBookingId
      else if newStart < checkOut doc \<and> newEnd > checkIn doc then False
      else overlap_loop docs newStart newEnd excludeBookingId)"

definition checkAvailability :: "db \<Rightarrow> string \<Rightarrow> millis \<Rightarrow> millis \<Rightarrow> string option \<Rightarrow> bool" where
  "checkAvailability s r newStart newEnd excludeBookingId =
     overlap_loop (room_active_bookings (bookings s) r) newStart newEnd excludeBookingId"

section \<open>Writes\<close>

text \<open>
  What the handlers ask of the store. \<open>update\<close> of a document that does not exist is
  rejected (NOT_FOUND); a batch is committed as a whole or not at all, so one missing
  document rejects every write of the batch. An \<open>add\<close> takes the fresh id the store
  generates as an argument. Queries are taken to be answered (the indexes they need
  exist), and a batch may hold any number of writes.
\<close>

datatype store_write =
    UpdatePayment string "payment \<Rightarrow> payment"
  | UpdateBooking string "booking \<Rightarrow> booking"
  | UpdateRoom string "room \<Rightarrow> room"

fun write_target_exists :: "db \<Rightarrow> store_write \<Rightarrow> bool" where
  "write_target_exists s (UpdatePayment i f) = (i \<in> set (map pid (payments s)))"
| "write_target_exists s (UpdateBooking i f) = (i \<in> set (map bid (bookings s)))"
| "write_target_exists s (UpdateRoom i f) = (i \<in> set (map rid (rooms s)))"

fun apply_write :: "db \<Rightarrow> store_write \<Rightarrow> db" where
  "apply_write s (UpdatePayment i f) =
     s\<lparr>payments := map (\<lambda>p. if pid p = i then f p else p) (payments s)\<rparr>"
| "apply_write s (UpdateBooking i f) =
     s\<lparr>bookings := map (\<lambda>b. if bid b = i then f b else b) (bookings s)\<rparr>"
| "apply_write s (UpdateRoom i f) =
     s\<lparr>rooms := map (\<lambda>r. if rid r = i then f r else r) (rooms s)\<rparr>"

definition commit :: "db \<Rightarrow> store_write list \<Rightarrow> db option" where
  "commit s ws = (if list_all (write_target_exists s) ws then Some (foldl apply_write s ws) else None)"

definition add_booking :: "db \<Rightarrow> booking \<Rightarrow> db" where
  "add_booking s b = s\<lparr>bookings := bookings s @ [b]\<rparr>"

definition add_payment :: "db \<Rightarrow> payment \<Rightarrow> db" where
  "add_payment s p = s\<lparr>payments := payments s @ [p]\<rparr>"

text \<open>
  A handler returns the store states it commits, one after the other, and its response.
  The state it leaves behind is the last committed one; the states before it are what a
  concurrent reader, or a crash between two writes, gets to see.
\<close>

datatype response =
    Send nat string
  | Error_json nat string
  | Failure_json nat string
  | Server_error
  | Success_json nat "string option" "string option"

type_synonym outcome = "db list \<times> response"

definition final_state :: "db \<Rightarrow> outcome \<Rightarrow> db" where
  "final_state s out = last (s # fst out)"

section \<open>Helpers of routes/bookings.js\<close>

text \<open>
  Strings are byte strings. The characters \<open>/[\s\-\(\)]/g\<close> removes: white space
  (tab to carriage return, space, no-break space), hyphen and parentheses.
\<close>

definition phone_noise :: "char \<Rightarrow> bool" where
  "phone_noise c = (let n = (of_char c :: nat) in
     (9 \<le> n \<and> n \<le> 13) \<or> n = 32 \<or> n = 160 \<or> c = CHR ''-'' \<or> c = CHR ''('' \<or> c = CHR '')'')"

definition formatPhoneNumber :: "string option \<Rightarrow> string option" where
  "formatPhoneNumber ph =
     (case ph of
        None \<Rightarrow> None
      | Some p \<Rightarrow>
          if p = [] then None
          else let cleanPhone = filter (\<lambda>c. \<not> phone_noise c) p in
            if take 1 cleanPhone = ''0'' then Some (''+256'' @ drop 1 cleanPhone)
            else if take 1 cleanPhone \<noteq> ''+'' then Some (''+256'' @ cleanPhone)
            else Some cleanPhone)"

text \<open>
  \<open>Math.ceil(diffTime / (1000 * 60 * 60 * 24))\<close> on whole milliseconds. Prices are
  whole numbers and the totals stay below \<open>2^53\<close>, where the code's arithmetic on doubles
  is exact; fractional prices and larger totals are outside this model.
\<close>

definition ceil_days :: "millis \<Rightarrow> int" where
  "ceil_days diffTime = - ((- diffTime) div (1000 * 60 * 60 * 24))"

definition calculateTotalPrice :: "int \<Rightarrow> millis \<Rightarrow> millis \<Rightarrow> int" where
  "calculateTotalPrice pricePerNight' checkIn' checkOut' =
     (if pricePerNight' = 0 then 0
      else let diffNights = ceil_days (checkOut' - checkIn')
           in pricePerNight' * (if diffNights > 0 then diffNights else 1))"

text \<open>
  A date field of a request body: absent (or the empty string), a string that
  \<open>new Date\<close> cannot parse, or a date. \<open>js_date\<close> is \<open>new Date(x).getTime()\<close>,
  with \<open>None\<close> for \<open>NaN\<close>; every comparison with \<open>NaN\<close> is false.
\<close>

datatype date_field = NoDate | BadDate | Date millis

fun js_date :: "date_field \<Rightarrow> millis option" where
  "js_date (Date t) = Some t"
| "js_date _ = None"

fun js_lt :: "millis option \<Rightarrow> millis option \<Rightarrow> bool" where
  "js_lt (Some a) (Some b) = (a < b)"
| "js_lt _ _ = False"

fun js_le :: "millis option \<Rightarrow> millis option \<Rightarrow> bool" where
  "js_le (Some a) (Some b) = (a \<le> b)"
| "js_le _ _ = False"

text \<open>\<open>a || b\<close> on strings.\<close>

definition or_default :: "string option \<Rightarrow> string \<Rightarrow> string" where
  "or_default v d = (case v of None \<Rightarrow> d | Some t \<Rightarrow> if t = [] then d else t)"

text \<open>
  \<open>collection.doc(path)\<close>. The store client throws when the path is empty or contains
  \<open>//\<close>; it splits the path at \<open>/\<close>, dropping empty segments (a leading or trailing
  slash), and throws unless the segments name a document: one segment for a document of
  the collection, three, five, ... for a document of a collection nested below it. The
  store holds no nested collections, so such a document never exists.
\<close>

fun split_slash :: "string \<Rightarrow> string list" where
  "split_slash [] = [[]]"
| "split_slash (c # cs) =
     (if c = CHR ''/'' then [] # split_slash cs
      else (case split_slash cs of [] \<Rightarrow> [[c]] | seg # segs \<Rightarrow> (c # seg) # segs))"

fun has_double_slash :: "string \<Rightarrow> bool" where
  "has_double_slash (c # d # cs) = ((c = CHR ''/'' \<and> d = CHR ''/'') \<or> has_double_slash (d # cs))"
| "has_double_slash _ = False"

datatype doc_ref = No_document | Document string | Nested_document

definition collection_doc :: "string \<Rightarrow> doc_ref" where
  "collection_doc path =
     (if path = [] \<or> has_double_slash path then No_document
      else case filter (\<lambda>seg. seg \<noteq> []) (split_slash path) of
             [seg] \<Rightarrow> Document seg
           | segs \<Rightarrow> if even (length segs) then No_document else Nested_document)"

text \<open>
  \<open>db.collection('rooms').doc(roomId).get()\<close>: \<open>None\<close> when the client throws,
  \<open>Some None\<close> when the document does not exist.
\<close>

definition get_room :: "db \<Rightarrow> string \<Rightarrow> room option option" where
  "get_room s path =
     (case collection_doc path of
        No_document \<Rightarrow> None
      | Nested_document \<Rightarrow> Some None
      | Document i \<Rightarrow> Some (find (\<lambda>r. rid r = i) (rooms s)))"

section \<open>POST /bookings (routes/bookings.js)\<close>

text \<open>
  The request body; a field that is absent is \<open>None\<close>. What the handler gets from
  outside the store is gathered in \<open>booking_env\<close>: the server time, the caller's uid, the
  user id \<open>findOrCreateUser\<close> resolves (\<open>None\<close> when it throws), the ids the store
  generates for the two added documents, the generated reference, and whether the
  gateway accepts the payment request (\<open>False\<close>: it rejects it or cannot be reached).
  Writing \<open>undefined\<close> into a document is rejected by the store.
\<close>

record booking_request =
  rq_roomId :: string
  rq_checkIn :: date_field
  rq_checkOut :: date_field
  rq_guestName :: "string option"
  rq_guestPhone :: "string option"
  rq_guestEmail :: "string option"
  rq_guests :: "int option"
  rq_status :: "string option"
  rq_paymentMethod :: "string option"
  rq_paymentStatus :: "string option"
  rq_receivedBy :: "string option"
  rq_paymentPhone :: "string option"

record booking_env =
  e_now :: millis
  e_uid :: string
  e_user :: "string option"
  e_booking_id :: string
  e_payment_id :: string
  e_reference :: string
  e_gateway_accepts :: bool

definition newBooking :: "booking_env \<Rightarrow> booking_request \<Rightarrow> room \<Rightarrow> string \<Rightarrow> string
    \<Rightarrow> millis \<Rightarrow> millis \<Rightarrow> booking" where
  "newBooking e rq roomData uid gname start_t end_t =
     \<lparr> bid = e_booking_id e,
       roomId = rq_roomId rq,
       userId = uid,
       guestName = gname,
       guestPhone = formatPhoneNumber (rq_guestPhone rq),
       guestEmail = or_default (rq_guestEmail rq) [],
       guests = (case rq_guests rq of None \<Rightarrow> 1 | Some n \<Rightarrow> if n = 0 then 1 else n),
       checkIn = start_t,
       checkOut = end_t,
       totalPrice = calculateTotalPrice (price roomData) start_t end_t,
       status = or_default (rq_status rq) ''pending'',
       paymentStatus = or_default (rq_paymentStatus rq) ''unpaid'',
       paymentMethod = or_default (rq_paymentMethod rq) ''Mobile Money'',
       paymentPhone = (if rq_paymentMethod rq = Some ''Mobile Money''
                       then formatPhoneNumber (rq_paymentPhone rq) else None),
       receivedBy = (if rq_paymentMethod rq = Some ''Cash'' then rq_receivedBy rq else None),
       createdAt = e_now e,
       createdBy = e_uid e,
       updatedAt = None \<rparr>"

definition paymentData :: "booking_env \<Rightarrow> booking_request \<Rightarrow> booking \<Rightarrow> string \<Rightarrow> payment" where
  "paymentData e rq b method =
     \<lparr> pid = e_payment_id e,
       bookingId = bid b,
       pay_userId = userId b,
       amount = totalPrice b,
       currency = ''UGX'',
       provider = method,
       phone = (if truthy (paymentPhone b) then paymentPhone b
                else formatPhoneNumber (rq_guestPhone rq)),
       pay_status = or_default (rq_paymentStatus rq) ''pending'',
       customer_reference = e_reference e,
       externalReference = None,
       pay_createdAt = e_now e,
       pay_updatedAt = None,
       paidAt = None,
       failureReason = None \<rparr>"

definition paymentMessage :: "booking_env \<Rightarrow> booking \<Rightarrow> string \<Rightarrow> string" where
  "paymentMessage e b method =
     (if method = ''Mobile Money'' \<and> truthy (paymentPhone b)
      then (if e_gateway_accepts e
            then ''Booking created. Payment prompt sent to phone.''
            else ''Booking created, but payment prompt failed. Try manually.'')
      else ''Booking created successfully.'')"

definition create_booking :: "booking_env \<Rightarrow> db \<Rightarrow> booking_request \<Rightarrow> outcome" where
  "create_booking e s rq =
     (case (js_date (rq_checkIn rq), js_date (rq_checkOut rq)) of
        (Some start_t, Some end_t) \<Rightarrow>
          if start_t \<ge> end_t then ([], Error_json 400 ''Check-out must be after check-in'')
          else if rq_paymentMethod rq = Some ''Cash'' \<and> \<not> truthy (rq_receivedBy rq)
          then ([], Error_json 400 ''Cash payment requires \"receivedBy\" staff.'')
          else (case get_room s (rq_roomId rq) of
             None \<Rightarrow> ([], Server_error)
           | Some None \<Rightarrow> ([], Error_json 404 ''Room not found'')
           | Some (Some roomData) \<Rightarrow>
               if \<not> checkAvailability s (rq_roomId rq) start_t end_t None
               then ([], Error_json 409 ''Room is unavailable'')
               else (case e_user e of
                  None \<Rightarrow> ([], Server_error)
                | Some uid \<Rightarrow>
                   (case rq_guestName rq of
                      None \<Rightarrow> ([], Server_error)
                    | Some gname \<Rightarrow>
                       let b = newBooking e rq roomData uid gname start_t end_t;
                           s1 = add_booking s b
                       in (case rq_paymentMethod rq of
                             None \<Rightarrow> ([s1], Server_error)
                           | Some method \<Rightarrow>
                               ([s1, add_payment s1 (paymentData e rq b method)],
                                Success_json 201 (Some (bid b))
                                  (Some (paymentMessage e b method)))))))
      | _ \<Rightarrow> ([], Error_json 400 ''Invalid dates''))"

section \<open>PUT /bookings/:id (routes/bookings.js)\<close>

record booking_update =
  up_roomId :: "string option"
  up_checkIn :: date_field
  up_checkOut :: date_field
  up_guestName :: "string option"
  up_guestPhone :: "string option"
  up_status :: "string option"
  up_paymentMethod :: "string option"
  up_paymentStatus :: "string option"
  up_receivedBy :: "string option"
  up_paymentPhone :: "string option"

text \<open>The \<open>updates\<close> object, as the function it applies to the stored document.\<close>

definition booking_updates :: "millis \<Rightarrow> booking_update \<Rightarrow> booking \<Rightarrow> booking" where
  "booking_updates t rq b =
     (let b1 = (case up_checkIn rq of Date ci \<Rightarrow> b\<lparr>checkIn := ci\<rparr> | _ \<Rightarrow> b);
          b2 = (case up_checkOut rq of Date co \<Rightarrow> b1\<lparr>checkOut := co\<rparr> | _ \<Rightarrow> b1);
          b3 = (if truthy (up_guestName rq) then b2\<lparr>guestName := or_default (up_guestName rq) []\<rparr> else b2);
          b4 = (if truthy (up_guestPhone rq) then b3\<lparr>guestPhone := formatPhoneNumber (up_guestPhone rq)\<rparr> else b3);
          b5 = (if truthy (up_status rq) then b4\<lparr>status := or_default (up_status rq) []\<rparr> else b4);
          b6 = (if truthy (up_roomId rq) then b5\<lparr>roomId := or_default (up_roomId rq) []\<rparr> else b5);
          b7 = (if truthy (up_paymentMethod rq) then b6\<lparr>paymentMethod := or_default (up_paymentMethod rq) []\<rparr> else b6);
          b8 = (if truthy (up_paymentStatus rq) then b7\<lparr>paymentStatus := or_default (up_paymentStatus rq) []\<rparr> else b7);
          b9 = (case up_receivedBy rq of None \<Rightarrow> b8 | Some v \<Rightarrow> b8\<lparr>receivedBy := Some v\<rparr>);
          b10 = (if truthy (up_paymentPhone rq) then b9\<lparr>paymentPhone := formatPhoneNumber (up_paymentPhone rq)\<rparr> else b9)
      in b10\<lparr>updatedAt := Some t\<rparr>)"

text \<open>
  \<open>Timestamp.fromDate\<close> of an invalid date throws, which the handler answers with 500.
  The overlap checker runs only under \<open>checkIn && checkOut && roomId\<close>.
\<close>

definition put_booking :: "millis \<Rightarrow> db \<Rightarrow> string \<Rightarrow> booking_update \<Rightarrow> outcome" where
  "put_booking t s i rq =
     (if up_checkIn rq = BadDate \<or> up_checkOut rq = BadDate then ([], Server_error)
      else if (truthy (up_roomId rq) \<or> up_checkIn rq \<noteq> NoDate \<or> up_checkOut rq \<noteq> NoDate) \<and>
        (case (up_checkIn rq, up_checkOut rq, up_roomId rq) of
           (Date start_t, Date end_t, Some r) \<Rightarrow>
              r \<noteq> [] \<and> \<not> checkAvailability s r start_t end_t (Some i)
         | _ \<Rightarrow> False)
      then ([], Error_json 409 ''Room is unavailable'')
      else (case commit s [UpdateBooking i (booking_updates t rq)] of
              None \<Rightarrow> ([], Server_error)
            | Some s1 \<Rightarrow> ([s1], Success_json 200 None None)))"

section \<open>The payment routes\<close>

text \<open>PUT /payments/:id. An \<open>update\<close> with no field at all is rejected by the store.\<close>

definition put_payment :: "millis \<Rightarrow> db \<Rightarrow> string \<Rightarrow> string option \<Rightarrow> outcome" where
  "put_payment t s i st =
     (if \<not> truthy st then ([], Error_json 400 ''Status is required'')
      else case find (\<lambda>p. pid p = i) (payments s) of
        None \<Rightarrow> ([], Error_json 404 ''Payment not found'')
      | Some paymentDoc \<Rightarrow>
         (case commit s [UpdatePayment i
                  (\<lambda>p. p\<lparr>pay_status := or_default st [], pay_updatedAt := Some t\<rparr>)] of
            None \<Rightarrow> ([], Server_error)
          | Some s1 \<Rightarrow>
             if bookingId paymentDoc = []
             then ([s1], Success_json 200 None (Some ''Payment status updated''))
             else if st = Some ''success'' \<or> st = Some ''paid''
             then (case commit s1 [UpdateBooking (bookingId paymentDoc)
                       (\<lambda>b. b\<lparr>paymentStatus := ''paid'', status := ''confirmed''\<rparr>)] of
                     None \<Rightarrow> ([s1], Server_error)
                   | Some s2 \<Rightarrow> ([s1, s2], Success_json 200 None (Some ''Payment status updated'')))
             else if st = Some ''failed''
             then (case commit s1 [UpdateBooking (bookingId paymentDoc)
                       (\<lambda>b. b\<lparr>paymentStatus := ''failed''\<rparr>)] of
                     None \<Rightarrow> ([s1], Server_error)
                   | Some s2 \<Rightarrow> ([s1, s2], Success_json 200 None (Some ''Payment status updated'')))
             else ([s1], Server_error)))"

text \<open>
  POST /payments/initiate. \<open>formatMsisdn\<close> is \<open>formatPhoneNumber\<close> under another
  name. The arguments after the request are the caller's uid, the id of the added
  document, the generated reference and whether the gateway accepts the request.
\<close>

record initiate_request =
  in_bookingId :: "string option"
  in_phoneNumber :: "string option"
  in_amount :: "int option"

definition formatMsisdn :: "string option \<Rightarrow> string option" where
  "formatMsisdn = formatPhoneNumber"

definition initiate_payment :: "millis \<Rightarrow> db \<Rightarrow> initiate_request \<Rightarrow> string \<Rightarrow> string \<Rightarrow> string
    \<Rightarrow> bool \<Rightarrow> outcome" where
  "initiate_payment t s rq uid new_id internalReference gateway_accepts =
     (case (in_bookingId rq, in_amount rq) of
        (Some b, Some a) \<Rightarrow>
          if b = [] \<or> \<not> truthy (in_phoneNumber rq) \<or> a = 0
          then ([], Error_json 400 ''Missing details'')
          else
            let s1 = add_payment s
                  \<lparr> pid = new_id, bookingId = b, pay_userId = uid, amount = a,
                    currency = ''UGX'', provider = ''mobile_money'',
                    phone = formatMsisdn (in_phoneNumber rq), pay_status = ''pending'',
                    customer_reference = internalReference, externalReference = None,
                    pay_createdAt = t, pay_updatedAt = None, paidAt = None,
                    failureReason = None \<rparr>
            in if gateway_accepts
               then ([s1], Success_json 200 None (Some ''Payment prompt sent''))
               else (case commit s1 [UpdatePayment new_id
                          (\<lambda>p. p\<lparr>pay_status := ''failed'',
                                 failureReason := Some ''API Call Failed''\<rparr>)] of
                       None \<Rightarrow> ([s1], Server_error)
                     | Some s2 \<Rightarrow>
                         ([s1, s2], Error_json 502 ''Failed to trigger mobile money prompt''))
      | _ \<Rightarrow> ([], Error_json 400 ''Missing details''))"

text \<open>
  POST /webhook. The body's fields are strings when present.
  \<open>status.toLowerCase() === 'success'\<close> is decided on the letters A to Z: no other
  character has a lower case among the letters of \<open>success\<close>.
\<close>

record webhook_body =
  wb_status :: "string option"
  wb_customer_reference :: "string option"
  wb_provider_transaction_id :: "string option"
  wb_message :: "string option"

definition toLowerCase :: "string \<Rightarrow> string" where
  "toLowerCase = map (\<lambda>c. let n = (of_char c :: nat) in
                             if 65 \<le> n \<and> n \<le> 90 then char_of (n + 32) else c)"

definition is_success :: "string option \<Rightarrow> bool" where
  "is_success st = (case st of None \<Rightarrow> False | Some t \<Rightarrow> t \<noteq> [] \<and> toLowerCase t = ''success'')"

text \<open>The query \<open>where('customer_reference', '==', ref).limit(1)\<close>.\<close>

definition payment_by_reference :: "db \<Rightarrow> string option \<Rightarrow> payment option" where
  "payment_by_reference s r = find (\<lambda>p. Some (customer_reference p) = r) (payments s)"

definition webhook :: "millis \<Rightarrow> db \<Rightarrow> webhook_body \<Rightarrow> outcome" where
  "webhook t s body =
     (if \<not> truthy (wb_customer_reference body) then ([], Send 400 ''Missing Ref'')
      else case payment_by_reference s (wb_customer_reference body) of
        None \<Rightarrow> ([], Send 200 ''OK'')
      | Some doc \<Rightarrow>
          if is_success (wb_status body)
          then (case wb_provider_transaction_id body of
                  None \<Rightarrow> ([], Send 500 ''Error'')
                | Some tx \<Rightarrow>
                   (case commit s
                       [UpdatePayment (pid doc)
                          (\<lambda>p. p\<lparr>pay_status := ''success'', externalReference := Some tx,
                                 paidAt := Some t\<rparr>),
                        UpdateBooking (bookingId doc)
                          (\<lambda>b. b\<lparr>paymentStatus := ''paid'', status := ''confirmed'',
                                 updatedAt := Some t\<rparr>)] of
                      None \<Rightarrow> ([], Send 500 ''Error'')
                    | Some s1 \<Rightarrow> ([s1], Send 200 ''OK'')))
          else (case wb_message body of
                  None \<Rightarrow> ([], Send 500 ''Error'')
                | Some m \<Rightarrow>
                   (case commit s
                       [UpdatePayment (pid doc)
                          (\<lambda>p. p\<lparr>pay_status := ''failed'', failureReason := Some m\<rparr>)] of
                      None \<Rightarrow> ([], Send 500 ''Error'')
                    | Some s1 \<Rightarrow> ([s1], Send 200 ''OK''))))"

section \<open>PUT /rooms/:id\<close>

record room_update =
  ru_roomNumber :: "string option"
  ru_type :: "string option"
  ru_price :: "int option"
  ru_status :: "string option"

definition cleanUpdates :: "millis \<Rightarrow> string \<Rightarrow> room_update \<Rightarrow> room \<Rightarrow> room" where
  "cleanUpdates t uid rq r =
     (let r1 = (if truthy (ru_roomNumber rq) then r\<lparr>roomNumber := or_default (ru_roomNumber rq) []\<rparr> else r);
          r2 = (if truthy (ru_type rq) then r1\<lparr>rtype := or_default (ru_type rq) []\<rparr> else r1);
          r3 = (case ru_price rq of None \<Rightarrow> r2 | Some n \<Rightarrow> if n = 0 then r2 else r2\<lparr>price := n\<rparr>);
          r4 = (if truthy (ru_status rq) then r3\<lparr>rstatus := or_default (ru_status rq) []\<rparr> else r3)
      in r4\<lparr>room_updatedAt := Some t, room_updatedBy := Some uid\<rparr>)"

text \<open>
  The snapshot of the force-end logic:
  \<open>where('roomId', '==', id).where('status', 'in', ['confirmed', 'pending'])
  .where('checkOut', '>', now)\<close>, and of it the documents with \<open>checkIn <= now\<close>.
\<close>

definition activeBookingsSnapshot :: "millis \<Rightarrow> db \<Rightarrow> string \<Rightarrow> booking list" where
  "activeBookingsSnapshot t s i =
     filter (\<lambda>b. roomId b = i \<and> status b \<in> set [''confirmed'', ''pending''] \<and> checkOut b > t)
       (bookings s)"

definition force_end_writes :: "millis \<Rightarrow> db \<Rightarrow> string \<Rightarrow> store_write list" where
  "force_end_writes t s i =
     map (\<lambda>doc. UpdateBooking (bid doc) (\<lambda>b. b\<lparr>checkOut := t, updatedAt := Some t\<rparr>))
       (filter (\<lambda>doc. checkIn doc \<le> t) (activeBookingsSnapshot t s i))"

definition put_room :: "millis \<Rightarrow> string \<Rightarrow> db \<Rightarrow> string \<Rightarrow> room_update \<Rightarrow> outcome" where
  "put_room t uid s i rq =
     (case find (\<lambda>r. rid r = i) (rooms s) of
        None \<Rightarrow> ([], Failure_json 404 ''Room not found'')
      | Some roomDoc \<Rightarrow>
          if truthy (ru_roomNumber rq) \<and> ru_roomNumber rq \<noteq> Some (roomNumber roomDoc) \<and>
             find (\<lambda>r. Some (roomNumber r) = ru_roomNumber rq) (rooms s) \<noteq> None
          then ([], Failure_json 409
                  (''Room '' @ or_default (ru_roomNumber rq) [] @ '' already exists.''))
          else
            let batch = (if ru_status rq = Some ''Available'' \<or> ru_status rq = Some ''Maintenance''
                         then force_end_writes t s i else [])
            in if batch = []
               then (case commit s [UpdateRoom i (cleanUpdates t uid rq)] of
                       None \<Rightarrow> ([], Server_error)
                     | Some s2 \<Rightarrow> ([s2], Success_json 200 None (Some ''Room updated successfully'')))
               else (case commit s batch of
                       None \<Rightarrow> ([], Server_error)
                     | Some s1 \<Rightarrow>
                        (case commit s1 [UpdateRoom i (cleanUpdates t uid rq)] of
                           None \<Rightarrow> ([s1], Server_error)
                         | Some s2 \<Rightarrow>
                             ([s1, s2], Success_json 200 None (Some ''Room updated successfully'')))))"

section \<open>POST /availability (routes/availability.js)\<close>

record availability_request =
  av_checkIn :: date_field
  av_checkOut :: date_field
  av_guests :: "int option"

record available_room =
  ar_id :: string
  ar_totalPrice :: "int option"
  ar_nights :: "int option"

datatype availability_response =
    Availability_error nat string
  | No_rooms
  | Found "available_room list"

text \<open>The three-way date test of the route, on \<open>Date\<close> values that may be invalid.\<close>

definition dates_overlap :: "millis option \<Rightarrow> millis option \<Rightarrow> millis \<Rightarrow> millis \<Rightarrow> bool" where
  "dates_overlap checkInDate checkOutDate bookingCheckIn bookingCheckOut =
     ((js_le (Some bookingCheckIn) checkInDate \<and> js_lt checkInDate (Some bookingCheckOut)) \<or>
      (js_lt (Some bookingCheckIn) checkOutDate \<and> js_le checkOutDate (Some bookingCheckOut)) \<or>
      (js_le checkInDate (Some bookingCheckIn) \<and> js_le (Some bookingCheckOut) checkOutDate))"

definition bookedRoomIds :: "db \<Rightarrow> string list \<Rightarrow> millis option \<Rightarrow> millis option \<Rightarrow> string list" where
  "bookedRoomIds s roomIds checkInDate checkOutDate =
     map roomId
       (filter (\<lambda>b. dates_overlap checkInDate checkOutDate (checkIn b) (checkOut b))
          (filter (\<lambda>b. status b = ''confirmed'' \<and> roomId b \<in> set roomIds) (bookings s)))"

definition nights_of :: "millis option \<Rightarrow> millis option \<Rightarrow> int option" where
  "nights_of checkInDate checkOutDate =
     (case (checkInDate, checkOutDate) of
        (Some ci, Some co) \<Rightarrow> Some (ceil_days (co - ci))
      | _ \<Rightarrow> None)"

definition times :: "int option \<Rightarrow> int option \<Rightarrow> int option" where
  "times a b = (case (a, b) of (Some x, Some y) \<Rightarrow> Some (x * y) | _ \<Rightarrow> None)"

definition meets_capacity :: "int option \<Rightarrow> room \<Rightarrow> bool" where
  "meets_capacity g r =
     (case g of
        None \<Rightarrow> True
      | Some n \<Rightarrow> n = 0 \<or> (case capacity r of None \<Rightarrow> False | Some c \<Rightarrow> c \<ge> n))"

text \<open>
  The route takes its store handle from \<open>require('../server')\<close>, and server.js ends
  with \<open>module.exports = { app }\<close>: that module exports no \<open>db\<close>, so the handle of
  the route is \<open>undefined\<close> whatever the store holds. The other routes take theirs from
  config/firebase.js, which exports the store.
\<close>

definition server_db :: "db \<Rightarrow> db option" where
  "server_db s = None"

definition firebase_db :: "db \<Rightarrow> db option" where
  "firebase_db s = Some s"

text \<open>
  \<open>today\<close> is the server's local midnight. \<open>in_limit\<close> is the number of values the
  store's \<open>in\<close> filter takes; a longer list of room ids makes the query throw. With an
  undefined handle the first store access throws; every throw is answered by the
  \<open>catch\<close> with 500.
\<close>

definition availability :: "millis \<Rightarrow> nat \<Rightarrow> db option \<Rightarrow> availability_request
    \<Rightarrow> availability_response" where
  "availability today in_limit handle rq =
     (if av_checkIn rq = NoDate \<or> av_checkOut rq = NoDate
      then Availability_error 400 ''VALIDATION_ERROR''
      else
        let checkInDate = js_date (av_checkIn rq); checkOutDate = js_date (av_checkOut rq) in
        if js_lt checkInDate (Some today) then Availability_error 400 ''INVALID_CHECKIN''
        else if js_le checkOutDate checkInDate then Availability_error 400 ''INVALID_CHECKOUT''
        else case handle of
          None \<Rightarrow> Availability_error 500 ''AVAILABILITY_CHECK_FAILED''
        | Some s \<Rightarrow>
          let activeRooms = filter isActive (rooms s) in
          if activeRooms = [] then No_rooms
          else if length activeRooms > in_limit
          then Availability_error 500 ''AVAILABILITY_CHECK_FAILED''
          else
            let booked = bookedRoomIds s (map rid activeRooms) checkInDate checkOutDate;
                nights = nights_of checkInDate checkOutDate
            in Found
                 (map (\<lambda>r. \<lparr> ar_id = rid r,
                              ar_totalPrice = times (pricePerNight r) nights,
                              ar_nights = nights \<rparr>)
                    (filter (\<lambda>r. rid r \<notin> set booked \<and> meets_capacity (av_guests rq) r)
                       activeRooms)))"

section \<open>Example data\<close>

definition day :: millis where
  "day = 1000 * 60 * 60 * 24"

text \<open>2025-01-10T00:00:00Z and the days after it.\<close>

definition jan10 :: millis where "jan10 = 1736467200000"
definition jan11 :: millis where "jan11 = jan10 + day"
definition jan12 :: millis where "jan12 = jan10 + 2 * day"
definition jan13 :: millis where "jan13 = jan10 + 3 * day"
definition jan14 :: millis where "jan14 = jan10 + 4 * day"

definition jan05 :: millis where "jan05 = jan10 - 5 * day"

definition room_R :: room where
  "room_R = \<lparr> rid = ''R'', roomNumber = ''101'', rtype = ''Double'', price = 100,
      rstatus = ''Occupied'', isActive = True, capacity = Some 2, pricePerNight = Some 100,
      room_updatedAt = None, room_updatedBy = None \<rparr>"

definition booking0 :: booking where
  "booking0 = \<lparr> bid = ''b1'', roomId = ''R'', userId = ''u1'', guestName = ''Ann'',
      guestPhone = Some ''+256700000001'', guestEmail = [], guests = 1,
      checkIn = jan10, checkOut = jan12, totalPrice = 200, status = ''pending'',
      paymentStatus = ''unpaid'', paymentMethod = ''Mobile Money'',
      paymentPhone = Some ''+256700000001'', receivedBy = None, createdAt = jan05,
      createdBy = ''u1'', updatedAt = None \<rparr>"

definition payment0 :: payment where
  "payment0 = \<lparr> pid = ''p1'', bookingId = ''b1'', pay_userId = ''u1'', amount = 200,
      currency = ''UGX'', provider = ''Mobile Money'', phone = Some ''+256700000001'',
      pay_status = ''pending'', customer_reference = ''TX-1'', externalReference = None,
      pay_createdAt = jan05, pay_updatedAt = None, paidAt = None, failureReason = None \<rparr>"

text \<open>One room, no booking yet; and the same store holding one pending booking of the
  room for January 10 to 12 with its pending payment.\<close>

definition db_R :: db where
  "db_R = \<lparr> rooms = [room_R], bookings = [], payments = [] \<rparr>"

definition db0 :: db where
  "db0 = \<lparr> rooms = [room_R], bookings = [booking0], payments = [payment0] \<rparr>"

definition request0 :: booking_request where
  "request0 = \<lparr> rq_roomId = ''R'', rq_checkIn = Date jan10, rq_checkOut = Date jan12,
      rq_guestName = Some ''Ann'', rq_guestPhone = Some ''0700 000-001'', rq_guestEmail = None,
      rq_guests = Some 1, rq_status = None, rq_paymentMethod = Some ''Mobile Money'',
      rq_paymentStatus = None, rq_receivedBy = None, rq_paymentPhone = Some ''0700000001'' \<rparr>"

definition env0 :: booking_env where
  "env0 = \<lparr> e_now = jan05, e_uid = ''u1'', e_user = Some ''u1'', e_booking_id = ''b1'',
      e_payment_id = ''p1'', e_reference = ''TX-1'', e_gateway_accepts = True \<rparr>"

definition success_body :: webhook_body where
  "success_body = \<lparr> wb_status = Some ''SUCCESS'', wb_customer_reference = Some ''TX-1'',
      wb_provider_transaction_id = Some ''G-77'', wb_message = None \<rparr>"

definition failed_body :: webhook_body where
  "failed_body = \<lparr> wb_status = Some ''failed'', wb_customer_reference = Some ''TX-1'',
      wb_provider_transaction_id = None, wb_message = Some ''declined'' \<rparr>"

text \<open>The store after the payment of \<open>booking0\<close> was confirmed on January 11.\<close>

definition payment_paid :: payment where
  "payment_paid = payment0\<lparr>pay_status := ''success'', externalReference := Some ''G-77'',
      paidAt := Some jan11\<rparr>"

definition booking_paid :: booking where
  "booking_paid = booking0\<lparr>paymentStatus := ''paid'', status := ''confirmed'',
      updatedAt := Some jan11\<rparr>"

definition db_paid :: db where
  "db_paid = \<lparr> rooms = [room_R], bookings = [booking_paid], payments = [payment_paid] \<rparr>"

text \<open>A second pending booking of the same room, January 12 to 14.\<close>

definition booking1 :: booking where
  "booking1 = booking0\<lparr>bid := ''b2'', checkIn := jan12, checkOut := jan14\<rparr>"

definition db_two :: db where
  "db_two = \<lparr> rooms = [room_R], bookings = [booking0, booking1], payments = [] \<rparr>"

definition no_update :: booking_update where
  "no_update = \<lparr> up_roomId = None, up_checkIn = NoDate, up_checkOut = NoDate,
      up_guestName = None, up_guestPhone = None, up_status = None, up_paymentMethod = None,
      up_paymentStatus = None, up_receivedBy = None, up_paymentPhone = None \<rparr>"

text \<open>A room edit that sets nothing but the manual status.\<close>

definition to_status :: "string \<Rightarrow> room_update" where
  "to_status st = \<lparr> ru_roomNumber = None, ru_type = None, ru_price = None, ru_status = Some st \<rparr>"

section \<open>Evaluating the handlers on the example data\<close>

lemmas example_defs = db_R_def db0_def room_R_def booking0_def payment0_def request0_def env0_def
  jan05_def jan10_def jan11_def jan12_def jan13_def jan14_def day_def success_body_def
  failed_body_def booking1_def db_two_def no_update_def payment_paid_def booking_paid_def
  db_paid_def to_status_def

lemmas handler_defs = create_booking_def get_room_def collection_doc_def checkAvailability_def room_active_bookings_def
  newBooking_def paymentData_def paymentMessage_def add_booking_def add_payment_def
  formatPhoneNumber_def formatMsisdn_def phone_noise_def calculateTotalPrice_def ceil_days_def
  or_default_def truthy_def Let_def final_state_def commit_def
  availability_def server_db_def firebase_db_def bookedRoomIds_def dates_overlap_def
  nights_of_def times_def meets_capacity_def
  webhook_def payment_by_reference_def
  put_payment_def put_booking_def booking_updates_def initiate_payment_def
  put_room_def cleanUpdates_def activeBookingsSnapshot_def force_end_writes_def

lemma is_success_examples:
  "is_success (Some ''SUCCESS'')" "\<not> is_success (Some ''failed'')" "is_success (Some ''success'')"
  by code_simp+


section \<open>Properties of the overlap checker\<close>

lemma overlap_loop_False_iff:
  "overlap_loop docs cs ce ex = False \<longleftrightarrow>
     (\<exists>b \<in> set docs. \<not> (truthy ex \<and> Some (bid b) = ex) \<and> cs < checkOut b \<and> ce > checkIn b)"
  by (induction docs) auto

lemma truthy_exclusion:
  "b_id \<noteq> [] \<Longrightarrow> (truthy ex \<and> Some b_id = ex) \<longleftrightarrow> Some b_id = ex"
  by (auto simp: truthy_def)

text \<open>
  Claim C2. For every room id, candidate interval \<open>[candidateStart, candidateEnd)\<close>,
  optional \<open>excludeBookingId\<close> and stored set of bookings (document ids are never empty
  in the store), \<open>checkAvailability\<close> returns false if and only if some booking of that
  room with status pending or confirmed, other than the excluded one, has
  \<open>candidateStart < existingEnd\<close> and \<open>candidateEnd > existingStart\<close>. In particular
  a candidate that only touches the stored intervals (or lies apart from them) is available.
\<close>

theorem checkAvailability_overlap_iff:
  assumes ids: "\<forall>b \<in> set (bookings s). bid b \<noteq> []"
  shows "(checkAvailability s r candidateStart candidateEnd excludeBookingId = False \<longleftrightarrow>
           (\<exists>b \<in> set (bookings s).
              roomId b = r \<and> status b \<in> {''pending'', ''confirmed''} \<and>
              Some (bid b) \<noteq> excludeBookingId \<and>
              candidateStart < checkOut b \<and> candidateEnd > checkIn b))
         \<and> ((\<forall>b \<in> set (bookings s). checkOut b \<le> candidateStart \<or> candidateEnd \<le> checkIn b)
              \<longrightarrow> checkAvailability s r candidateStart candidateEnd excludeBookingId)"
proof -
  have iff: "checkAvailability s r candidateStart candidateEnd excludeBookingId = False \<longleftrightarrow>
           (\<exists>b \<in> set (bookings s).
              roomId b = r \<and> status b \<in> {''pending'', ''confirmed''} \<and>
              Some (bid b) \<noteq> excludeBookingId \<and>
              candidateStart < checkOut b \<and> candidateEnd > checkIn b)"
    unfolding checkAvailability_def overlap_loop_False_iff room_active_bookings_def
    using ids by (auto simp: truthy_exclusion)
  have "checkAvailability s r candidateStart candidateEnd excludeBookingId"
    if "\<forall>b \<in> set (bookings s). checkOut b \<le> candidateStart \<or> candidateEnd \<le> checkIn b"
  proof (rule ccontr)
    assume "\<not> checkAvailability s r candidateStart candidateEnd excludeBookingId"
    then obtain b where "b \<in> set (bookings s)" "candidateStart < checkOut b"
      "candidateEnd > checkIn b"
      using iff by auto
    with that show False by force
  qed
  with iff show ?thesis by blast
qed

theorem checkAvailability_overlap_iff_witness:
  "map bid (bookings db0) = [''b1'']
   \<and> checkAvailability db0 ''R'' jan11 jan13 None = False
   \<and> checkAvailability db0 ''R'' jan12 jan14 None
   \<and> checkAvailability db0 ''R'' jan11 jan13 (Some ''b1'')"
proof -
  have ids: "\<forall>b \<in> set (bookings db0). bid b \<noteq> []"
    by (simp add: db0_def booking0_def)
  have a: "checkAvailability db0 ''R'' jan11 jan13 None = False"
    using checkAvailability_overlap_iff [OF ids, of "''R''" jan11 jan13 None]
    by (simp add: db0_def booking0_def jan10_def jan11_def jan12_def jan13_def day_def)
  have b: "checkAvailability db0 ''R'' jan12 jan14 None"
    using checkAvailability_overlap_iff [OF ids, of "''R''" jan12 jan14 None]
    by (simp add: db0_def booking0_def jan10_def jan12_def jan14_def day_def)
  have c: "checkAvailability db0 ''R'' jan11 jan13 (Some ''b1'')"
    using checkAvailability_overlap_iff [OF ids, of "''R''" jan11 jan13 "Some ''b1''"]
    by (simp add: db0_def booking0_def jan10_def jan11_def jan12_def jan13_def day_def)
  have d: "map bid (bookings db0) = [''b1'']"
    by (simp add: db0_def booking0_def)
  from d a b c show ?thesis by blast
qed

section \<open>The availability route against the booking route\<close>

text \<open>
  Claim C1. After a booking of room R for January 10 to 12 is created with the default
  status (pending, unpaid), the availability route is asked about R. The evaluation below
  runs the two handlers. The booking is stored as pending and unpaid. With the handle the
  route imports, every request that passes the date checks is answered 500: the route
  reports nothing about R, for January 11 to 13 as for January 12 to 14. Given the handle
  of the other routes, the route lists R as available for January 11 to 13, since it reads
  confirmed bookings only, although \<open>checkAvailability\<close>, the check of the booking route,
  answers false for the same room and dates; had the booking been confirmed, R would not
  be listed; for January 12 to 14 R is listed.
\<close>

theorem availability_lists_room_with_pending_booking:
  "create_booking env0 db_R request0 =
     ([db_R\<lparr>bookings := [booking0]\<rparr>, db0],
      Success_json 201 (Some ''b1'') (Some ''Booking created. Payment prompt sent to phone.''))
   \<and> status booking0 = ''pending'' \<and> paymentStatus booking0 = ''unpaid''
   \<and> availability jan05 30 (server_db db0)
         \<lparr>av_checkIn = Date jan11, av_checkOut = Date jan13, av_guests = None\<rparr>
       = Availability_error 500 ''AVAILABILITY_CHECK_FAILED''
   \<and> availability jan05 30 (server_db db0)
         \<lparr>av_checkIn = Date jan12, av_checkOut = Date jan14, av_guests = None\<rparr>
       = Availability_error 500 ''AVAILABILITY_CHECK_FAILED''
   \<and> availability jan05 30 (firebase_db db0)
         \<lparr>av_checkIn = Date jan11, av_checkOut = Date jan13, av_guests = None\<rparr>
       = Found [\<lparr>ar_id = ''R'', ar_totalPrice = Some 200, ar_nights = Some 2\<rparr>]
   \<and> checkAvailability db0 ''R'' jan11 jan13 None = False
   \<and> availability jan05 30 (firebase_db (db0\<lparr>bookings := [booking0\<lparr>status := ''confirmed''\<rparr>]\<rparr>))
         \<lparr>av_checkIn = Date jan11, av_checkOut = Date jan13, av_guests = None\<rparr> = Found []
   \<and> availability jan05 30 (firebase_db db0)
         \<lparr>av_checkIn = Date jan12, av_checkOut = Date jan14, av_guests = None\<rparr>
       = Found [\<lparr>ar_id = ''R'', ar_totalPrice = Some 200, ar_nights = Some 2\<rparr>]"
  by (simp add: handler_defs example_defs)

theorem availability_lists_room_with_pending_booking_witness:
  "map status (bookings (final_state db_R (create_booking env0 db_R request0))) = [''pending'']
   \<and> availability jan05 30 (firebase_db (final_state db_R (create_booking env0 db_R request0)))
         \<lparr>av_checkIn = Date jan11, av_checkOut = Date jan13, av_guests = None\<rparr>
       = Found [\<lparr>ar_id = ''R'', ar_totalPrice = Some 200, ar_nights = Some 2\<rparr>]
   \<and> availability jan05 30 (server_db (final_state db_R (create_booking env0 db_R request0)))
         \<lparr>av_checkIn = Date jan11, av_checkOut = Date jan13, av_guests = None\<rparr>
       = Availability_error 500 ''AVAILABILITY_CHECK_FAILED''
   \<and> \<not> checkAvailability (final_state db_R (create_booking env0 db_R request0))
         ''R'' jan11 jan13 None"
  using availability_lists_room_with_pending_booking
  by (simp add: final_state_def db0_def)

section \<open>Payment confirmation\<close>

text \<open>
  Claim C3. A payment reaching success and its booking becoming confirmed and paid are to
  be one atomic write. The evaluation below runs both paths on the store with one pending
  payment of one pending booking. PUT /payments/:id commits twice: after the first commit
  the payment is \<open>success\<close> while the booking is still pending and unpaid, and neither
  commit stores an external transaction id or a paid timestamp. The webhook commits once,
  both documents together.
\<close>

theorem put_payment_commits_payment_before_booking:
  "put_payment jan11 db0 ''p1'' (Some ''success'') =
     ([db0\<lparr>payments := [payment0\<lparr>pay_status := ''success'', pay_updatedAt := Some jan11\<rparr>]\<rparr>,
       db0\<lparr>payments := [payment0\<lparr>pay_status := ''success'', pay_updatedAt := Some jan11\<rparr>],
           bookings := [booking0\<lparr>paymentStatus := ''paid'', status := ''confirmed''\<rparr>]\<rparr>],
      Success_json 200 None (Some ''Payment status updated''))
   \<and> webhook jan11 db0 success_body =
     ([db0\<lparr>payments := [payment0\<lparr>pay_status := ''success'', externalReference := Some ''G-77'',
                                   paidAt := Some jan11\<rparr>],
           bookings := [booking0\<lparr>paymentStatus := ''paid'', status := ''confirmed'',
                                   updatedAt := Some jan11\<rparr>]\<rparr>],
      Send 200 ''OK'')"
  by (simp add: handler_defs example_defs is_success_examples)

theorem put_payment_commits_payment_before_booking_witness:
  "\<exists>s1 \<in> set (fst (put_payment jan11 db0 ''p1'' (Some ''success''))).
      map pay_status (payments s1) = [''success''] \<and>
      map status (bookings s1) = [''pending''] \<and>
      map paymentStatus (bookings s1) = [''unpaid'']"
  using put_payment_commits_payment_before_booking
  by (simp add: db0_def payment0_def booking0_def)

section \<open>Editing a booking\<close>

text \<open>
  Claim C5. An edit that changes the room or the dates is to be checked against the other
  bookings, a missing date taken from the stored booking. The evaluation below edits the
  second of two back-to-back bookings of room R. Supplying only a new check-in, January 11,
  the edit is accepted and stored, although the room is taken on that day by the first
  booking: \<open>checkAvailability\<close> for the resulting interval, excluding the edited booking,
  answers false. The same change with room, check-in and check-out all supplied is
  rejected with 409.
\<close>

theorem put_booking_partial_dates_skip_overlap_check:
  "put_booking jan05 db_two ''b2'' (no_update\<lparr>up_checkIn := Date jan11\<rparr>) =
     ([db_two\<lparr>bookings := [booking0, booking1\<lparr>checkIn := jan11, updatedAt := Some jan05\<rparr>]\<rparr>],
      Success_json 200 None None)
   \<and> checkAvailability db_two ''R'' jan11 jan14 (Some ''b2'') = False
   \<and> put_booking jan05 db_two ''b2''
        (no_update\<lparr>up_roomId := Some ''R'', up_checkIn := Date jan11, up_checkOut := Date jan14\<rparr>) =
     ([], Error_json 409 ''Room is unavailable'')"
  by (simp add: handler_defs example_defs)

theorem put_booking_partial_dates_skip_overlap_check_witness:
  "snd (put_booking jan05 db_two ''b2'' (no_update\<lparr>up_checkIn := Date jan11\<rparr>))
     = Success_json 200 None None
   \<and> map (\<lambda>b. (bid b, roomId b, checkIn b, checkOut b, status b))
        (bookings (final_state db_two
           (put_booking jan05 db_two ''b2'' (no_update\<lparr>up_checkIn := Date jan11\<rparr>))))
     = [(''b1'', ''R'', jan10, jan12, ''pending''), (''b2'', ''R'', jan11, jan14, ''pending'')]"
  using put_booking_partial_dates_skip_overlap_check
  by (simp add: final_state_def db_two_def booking0_def booking1_def)

section \<open>The gateway rejects the payment request\<close>

text \<open>
  Claim C6. When the gateway rejects the request (or cannot be reached) during booking
  creation, the payment record is to be marked failed with a reason while the request
  succeeds. The evaluation below creates the booking with a rejecting gateway: the answer
  is 201 with the message that the prompt failed, the booking is stored pending and
  unpaid, but the stored payment is still \<open>pending\<close> and has no failure reason. The retry
  route, POST /payments/initiate, does mark its payment failed with the reason
  \<open>API Call Failed\<close>, and answers 502.
\<close>

theorem create_booking_leaves_payment_pending_on_gateway_failure:
  "create_booking (env0\<lparr>e_gateway_accepts := False\<rparr>) db_R request0 =
     ([db_R\<lparr>bookings := [booking0]\<rparr>, db0],
      Success_json 201 (Some ''b1'')
        (Some ''Booking created, but payment prompt failed. Try manually.''))
   \<and> status booking0 = ''pending'' \<and> paymentStatus booking0 = ''unpaid''
   \<and> pay_status payment0 = ''pending'' \<and> failureReason payment0 = None
   \<and> initiate_payment jan05 (db0\<lparr>payments := []\<rparr>)
         \<lparr>in_bookingId = Some ''b1'', in_phoneNumber = Some ''0700000001'', in_amount = Some 200\<rparr>
         ''u1'' ''p1'' ''TX-1'' False =
     ([db0\<lparr>payments := [payment0\<lparr>provider := ''mobile_money''\<rparr>]\<rparr>,
       db0\<lparr>payments := [payment0\<lparr>provider := ''mobile_money'', pay_status := ''failed'',
                                   failureReason := Some ''API Call Failed''\<rparr>]\<rparr>],
      Error_json 502 ''Failed to trigger mobile money prompt'')"
  by (simp add: handler_defs example_defs)

theorem create_booking_leaves_payment_pending_on_gateway_failure_witness:
  "map (\<lambda>p. (pay_status p, failureReason p))
      (payments (final_state db_R
         (create_booking (env0\<lparr>e_gateway_accepts := False\<rparr>) db_R request0)))
     = [(''pending'', None)]
   \<and> map (\<lambda>b. (status b, paymentStatus b))
      (bookings (final_state db_R
         (create_booking (env0\<lparr>e_gateway_accepts := False\<rparr>) db_R request0)))
     = [(''pending'', ''unpaid'')]"
  using create_booking_leaves_payment_pending_on_gateway_failure
  by (simp add: final_state_def db0_def)

section \<open>The webhook\<close>

text \<open>
  Claim C8, as the code has it. The claim says that every delivery whose
  \<open>customer_reference\<close> matches no stored payment is acknowledged. A delivery whose
  reference is the empty string matches no stored payment, and it is answered 400 with
  \<open>Missing Ref\<close>: the guard on a missing reference takes it before the lookup.
\<close>

theorem webhook_empty_reference_not_acknowledged:
  "map customer_reference (payments db0) = [''TX-1'']
   \<and> payment_by_reference db0 (Some []) = None
   \<and> webhook jan11 db0 (success_body\<lparr>wb_customer_reference := Some []\<rparr>)
       = ([], Send 400 ''Missing Ref'')"
  by (simp add: webhook_def payment_by_reference_def truthy_def db0_def payment0_def)

text \<open>
  Claim C8, amended. For every webhook delivery whose \<open>customer_reference\<close> is not empty
  and matches no stored payment, the handler answers 200 OK and commits nothing: no
  payment and no booking is changed.
\<close>

theorem webhook_unmatched_reference:
  assumes "truthy (wb_customer_reference body)"
      and "\<forall>p \<in> set (payments s). Some (customer_reference p) \<noteq> wb_customer_reference body"
  shows "webhook t s body = ([], Send 200 ''OK'') \<and> final_state s (webhook t s body) = s"
proof -
  have "payment_by_reference s (wb_customer_reference body) = None"
    using assms(2) by (auto simp: payment_by_reference_def find_None_iff)
  with assms(1) show ?thesis by (simp add: webhook_def final_state_def)
qed

theorem webhook_unmatched_reference_witness:
  "truthy (wb_customer_reference (success_body\<lparr>wb_customer_reference := Some ''TX-2''\<rparr>))
   \<and> map customer_reference (payments db0) = [''TX-1'']
   \<and> webhook jan11 db0 (success_body\<lparr>wb_customer_reference := Some ''TX-2''\<rparr>)
       = ([], Send 200 ''OK'')
   \<and> final_state db0 (webhook jan11 db0 (success_body\<lparr>wb_customer_reference := Some ''TX-2''\<rparr>))
       = db0"
proof -
  let ?body = "success_body\<lparr>wb_customer_reference := Some ''TX-2''\<rparr>"
  have r: "truthy (wb_customer_reference ?body)"
    by (simp add: truthy_def)
  have n: "\<forall>p \<in> set (payments db0). Some (customer_reference p) \<noteq> wb_customer_reference ?body"
    by (simp add: db0_def payment0_def)
  have m: "map customer_reference (payments db0) = [''TX-1'']"
    by (simp add: db0_def payment0_def)
  from r m webhook_unmatched_reference [OF r n, of jan11] show ?thesis by blast
qed

text \<open>
  Claim C10. For every webhook request whose body lacks a \<open>customer_reference\<close> (the
  field is absent or empty), the handler answers 400 with the text \<open>Missing Ref\<close>, not
  an acknowledgment, and commits nothing.
\<close>

theorem webhook_missing_reference:
  assumes "\<not> truthy (wb_customer_reference body)"
  shows "webhook t s body = ([], Send 400 ''Missing Ref'') \<and> final_state s (webhook t s body) = s"
  using assms by (simp add: webhook_def final_state_def)

theorem webhook_missing_reference_witness:
  "wb_customer_reference (success_body\<lparr>wb_customer_reference := None\<rparr>) = None
   \<and> webhook jan11 db0 (success_body\<lparr>wb_customer_reference := None\<rparr>)
       = ([], Send 400 ''Missing Ref'')
   \<and> final_state db0 (webhook jan11 db0 (success_body\<lparr>wb_customer_reference := None\<rparr>)) = db0"
proof -
  let ?body = "success_body\<lparr>wb_customer_reference := None\<rparr>"
  have r: "\<not> truthy (wb_customer_reference ?body)"
    by (simp add: truthy_def)
  have "wb_customer_reference ?body = None" by simp
  with webhook_missing_reference [OF r, of jan11 db0] show ?thesis by blast
qed

subsection \<open>What a matched delivery writes\<close>


lemma map_pid_update:
  "(\<And>p. pid (f p) = pid p) \<Longrightarrow> map pid (map (\<lambda>p. if pid p = i then f p else p) ps) = map pid ps"
  by (induction ps) auto





















section \<open>The manual override\<close>












end
